theory Spec2Isabelle
  imports Main "HOL-Library.Word"
begin

section \<open>CrossSigningManager.js: secret storage keys cached for one operation\<close>

text \<open>
  The module keeps two variables, \<^verbatim>\<open>secretStorageKeys\<close> (an object used as a
  dictionary from key name to private key) and \<^verbatim>\<open>cachingAllowed\<close>, and exports two
  asynchronous functions: \<^verbatim>\<open>getSecretStorageKey\<close>, registered as a callback of the
  JS SDK, and \<^verbatim>\<open>accessSecretStorage\<close>, which brackets one operation.

  Everything else is a collaborator the module only calls: the two dialogs opened through
  \<^verbatim>\<open>Modal\<close>, the creation dialog, the client's \<^verbatim>\<open>hasSecretStorageKey\<close>,
  \<^verbatim>\<open>bootstrapSecretStorage\<close> and \<^verbatim>\<open>checkSecretStoragePrivateKey\<close>, and the SDK's
  \<^verbatim>\<open>deriveKey\<close> and \<^verbatim>\<open>decodeRecoveryKey\<close>. They are parameters of the model, so every
  theorem holds for every behaviour of a collaborator.
\<close>

subsection \<open>Values, errors and promises\<close>

text \<open>
  The module throws \<^verbatim>\<open>new Error(message)\<close> with four fixed messages; destructuring
  \<^verbatim>\<open>undefined\<close> and reading a property of \<^verbatim>\<open>undefined\<close> throw a \<^verbatim>\<open>TypeError\<close>.
  A collaborator may throw either.
\<close>

datatype error = Error string | TypeError

abbreviation UnsupportedMultiKeyRequest :: error where
  "UnsupportedMultiKeyRequest \<equiv> Error ''Multiple storage key requests not implemented''"

abbreviation SecretStorageAccessCanceled :: error where
  "SecretStorageAccessCanceled \<equiv> Error ''Secret storage access canceled''"

abbreviation SecretStorageCreationCanceled :: error where
  "SecretStorageCreationCanceled \<equiv> Error ''Secret storage creation canceled''"

abbreviation CrossSigningUploadAuthCanceled :: error where
  "CrossSigningUploadAuthCanceled \<equiv> Error ''Cross-signing key upload auth canceled''"

text \<open>
  What \<^verbatim>\<open>await p\<close> can observe of a promise: it is fulfilled with a value, it is
  rejected with an error, or it never settles. In the last case the awaiting function
  stays suspended for ever, and nothing after the \<^verbatim>\<open>await\<close> runs, a \<^verbatim>\<open>finally\<close>
  block included.
\<close>

datatype 'a promise = Resolved 'a | Rejected error | Pending

text \<open>
  An asynchronous computation over a state \<open>'s\<close> returns how its promise settles and the
  state it leaves. \<open>await\<close> sequences two of them the way \<^verbatim>\<open>const v = await p; ...\<close>
  does inside an \<^verbatim>\<open>async\<close> function.
\<close>

type_synonym ('a, 's) async = "'s \<Rightarrow> 'a promise \<times> 's"

definition await :: "'a promise \<times> 's \<Rightarrow> ('a \<Rightarrow> ('b, 's) async) \<Rightarrow> 'b promise \<times> 's" where
  "await p k =
     (case p of
        (Resolved v, s) \<Rightarrow> k v s
      | (Rejected e, s) \<Rightarrow> (Rejected e, s)
      | (Pending, s) \<Rightarrow> (Pending, s))"

text \<open>
  \<^verbatim>\<open>try { body } finally { fin }\<close> around awaited work: \<open>fin\<close> runs when the body
  returns or throws, and does not run while the body is suspended.
\<close>

definition try_finally :: "('a, 's) async \<Rightarrow> ('s \<Rightarrow> 's) \<Rightarrow> ('a, 's) async" where
  "try_finally body fin s =
     (case body s of
        (Pending, s') \<Rightarrow> (Pending, s')
      | (r, s') \<Rightarrow> (r, fin s'))"

text \<open>A synchronous call that returns or throws, used in an \<^verbatim>\<open>async\<close> function.\<close>

definition settled :: "error + 'a \<Rightarrow> 'a promise" where
  "settled r = (case r of Inl e \<Rightarrow> Rejected e | Inr v \<Rightarrow> Resolved v)"

subsection \<open>Data\<close>

text \<open>A private key is a \<^verbatim>\<open>Uint8Array\<close>: an object, hence truthy, also when empty.\<close>

type_synonym key = "8 word list"

text \<open>
  The description of one key, \<^verbatim>\<open>info\<close> in the source: \<^verbatim>\<open>info.passphrase\<close> (absent
  for a key that was not made from a passphrase) and \<^verbatim>\<open>info.pubkey\<close>.
\<close>

record passphraseInfo =
  salt :: string
  iterations :: nat

record keyInfo =
  info_passphrase :: "passphraseInfo option"
  pubkey :: string

text \<open>
  The argument \<^verbatim>\<open>{ keys: keyInfos }\<close>: \<open>keys\<close> is \<^verbatim>\<open>Object.entries(keyInfos)\<close>, the
  pairs of a name and its description in the object's order.
\<close>

record keyRequest =
  keys :: "(string \<times> keyInfo) list"

text \<open>
  What the access dialog hands back, \<^verbatim>\<open>{ passphrase, recoveryKey }\<close>: a field that is
  missing is \<open>None\<close>.
\<close>

record keyInput =
  passphrase :: "string option"
  recoveryKey :: "string option"

text \<open>
  The module's variables, with the world outside the module (the dialogs on screen, the
  client, the homeserver) as \<open>world\<close>. Initially \<^verbatim>\<open>secretStorageKeys = {}\<close> and
  \<^verbatim>\<open>cachingAllowed = false\<close>. The dictionary holds own properties only: names that an
  object inherits from \<^verbatim>\<open>Object.prototype\<close> are not key names.
\<close>

record 'w state =
  secretStorageKeys :: "string \<rightharpoonup> key"
  cachingAllowed :: bool
  world :: 'w

subsection \<open>getSecretStorageKey\<close>

text \<open>
  The test \<^verbatim>\<open>if (passphrase)\<close> on an optional string: a missing field
  (\<^verbatim>\<open>undefined\<close>) and the empty string are falsy. The result is the string when it is
  truthy.
\<close>

definition truthy :: "string option \<Rightarrow> string option" where
  "truthy s = (case s of None \<Rightarrow> None | Some t \<Rightarrow> if t = [] then None else Some t)"

text \<open>
  \<^verbatim>\<open>inputToKey\<close> (lines 44 to 54). \<^verbatim>\<open>deriveKey\<close> returns a promise;
  \<^verbatim>\<open>decodeRecoveryKey\<close> returns or throws, and is called with \<^verbatim>\<open>undefined\<close> when the
  field is missing. Reading \<^verbatim>\<open>info.passphrase.salt\<close> throws when \<^verbatim>\<open>info.passphrase\<close>
  is missing.
\<close>

definition inputToKey ::
  "(string \<Rightarrow> string \<Rightarrow> nat \<Rightarrow> key promise) \<Rightarrow> (string option \<Rightarrow> error + key) \<Rightarrow>
   keyInfo \<Rightarrow> keyInput \<Rightarrow> key promise" where
  "inputToKey deriveKey decodeRecoveryKey info input =
     (case truthy (passphrase input) of
        Some pw \<Rightarrow>
          (case info_passphrase info of
             None \<Rightarrow> Rejected TypeError
           | Some p \<Rightarrow> deriveKey pw (salt p) (iterations p))
      | None \<Rightarrow> settled (decodeRecoveryKey (recoveryKey input)))"

text \<open>The \<^verbatim>\<open>checkPrivateKey\<close> callback given to the access dialog (lines 61 to 64).\<close>

definition checkPrivateKey ::
  "(string \<Rightarrow> string \<Rightarrow> nat \<Rightarrow> key promise) \<Rightarrow> (string option \<Rightarrow> error + key) \<Rightarrow>
   (key \<Rightarrow> string \<Rightarrow> bool promise) \<Rightarrow> keyInfo \<Rightarrow> keyInput \<Rightarrow> bool promise" where
  "checkPrivateKey deriveKey decodeRecoveryKey checkSecretStoragePrivateKey info input =
     (case inputToKey deriveKey decodeRecoveryKey info input of
        Resolved k \<Rightarrow> checkSecretStoragePrivateKey k (pubkey info)
      | Rejected e \<Rightarrow> Rejected e
      | Pending \<Rightarrow> Pending)"

text \<open>
  The test of line 40, \<^verbatim>\<open>cachingAllowed && secretStorageKeys[name]\<close>: the entry when
  caching is allowed and there is one, nothing otherwise.
\<close>

definition cacheLookup :: "'w state \<Rightarrow> string \<Rightarrow> key option" where
  "cacheLookup st name = (if cachingAllowed st then secretStorageKeys st name else None)"

text \<open>Lines 74 to 76: \<^verbatim>\<open>if (cachingAllowed) secretStorageKeys[name] = key\<close>.\<close>

definition cacheStore :: "string \<Rightarrow> key \<Rightarrow> 'w state \<Rightarrow> 'w state" where
  "cacheStore name k st =
     (if cachingAllowed st then st\<lparr>secretStorageKeys := (secretStorageKeys st)(name \<mapsto> k)\<rparr>
      else st)"

text \<open>
  The access dialog (\<^verbatim>\<open>Modal.createTrackedDialog\<close> with
  \<^verbatim>\<open>AccessSecretStorageDialog\<close>) is given \<^verbatim>\<open>keyInfo\<close> and \<^verbatim>\<open>checkPrivateKey\<close>; its
  \<^verbatim>\<open>finished\<close> promise yields the input, or a falsy value (\<open>None\<close>) when the user
  closes it. It works on the world and has no access to the module's variables.
\<close>

type_synonym 'w accessDialog =
  "keyInfo \<Rightarrow> (keyInput \<Rightarrow> bool promise) \<Rightarrow> (keyInput option, 'w) async"

definition in_world :: "('a, 'w) async \<Rightarrow> ('a, 'w state) async" where
  "in_world f st = (case f (world st) of (r, w') \<Rightarrow> (r, st\<lparr>world := w'\<rparr>))"

definition getSecretStorageKey ::
  "'w accessDialog \<Rightarrow> (string \<Rightarrow> string \<Rightarrow> nat \<Rightarrow> key promise) \<Rightarrow>
   (string option \<Rightarrow> error + key) \<Rightarrow> (key \<Rightarrow> string \<Rightarrow> bool promise) \<Rightarrow>
   keyRequest \<Rightarrow> (string \<times> key, 'w state) async" where
  "getSecretStorageKey accessDialog deriveKey decodeRecoveryKey checkSecretStoragePrivateKey
       request st =
     (let keyInfoEntries = keys request in
      if length keyInfoEntries > 1 then (Rejected UnsupportedMultiKeyRequest, st)
      else
        (case keyInfoEntries of
           [] \<Rightarrow> (Rejected TypeError, st)
         | (name, info) # _ \<Rightarrow>
             (case cacheLookup st name of
                Some k \<Rightarrow> (Resolved (name, k), st)
              | None \<Rightarrow>
                  await
                    (in_world
                       (accessDialog info
                          (checkPrivateKey deriveKey decodeRecoveryKey
                             checkSecretStoragePrivateKey info)) st)
                    (\<lambda>input st1.
                       (case input of
                          None \<Rightarrow> (Rejected SecretStorageAccessCanceled, st1)
                        | Some i \<Rightarrow>
                            await (inputToKey deriveKey decodeRecoveryKey info i, st1)
                              (\<lambda>k st2. (Resolved (name, k), cacheStore name k st2)))))))"

subsection \<open>accessSecretStorage\<close>

text \<open>
  The callback \<^verbatim>\<open>authUploadDeviceSigningKeys\<close> (lines 124 to 137): it opens the
  interactive authentication dialog with \<^verbatim>\<open>makeRequest\<close> and throws unless the dialog
  finishes confirmed.
\<close>

definition authUploadDeviceSigningKeys ::
  "('m \<Rightarrow> (bool, 'w) async) \<Rightarrow> 'm \<Rightarrow> (unit, 'w) async" where
  "authUploadDeviceSigningKeys interactiveAuthDialog makeRequest w =
     await (interactiveAuthDialog makeRequest w)
       (\<lambda>confirmed w'.
          if \<not> confirmed then (Rejected CrossSigningUploadAuthCanceled, w')
          else (Resolved (), w'))"

text \<open>
  The body of the \<^verbatim>\<open>try\<close> block (lines 110 to 143). \<^verbatim>\<open>hasSecretStorageKey\<close> is a
  synchronous call on the client. The creation dialog, \<^verbatim>\<open>bootstrapSecretStorage\<close> and
  \<^verbatim>\<open>func\<close> may call back into \<^verbatim>\<open>getSecretStorageKey\<close>, so they act on the whole
  state; the model lets them change it in any way.
\<close>

definition tryBlock ::
  "('w \<Rightarrow> error + bool) \<Rightarrow> (bool, 'w state) async \<Rightarrow> ('m \<Rightarrow> (bool, 'w) async) \<Rightarrow>
   (('m \<Rightarrow> (unit, 'w) async) \<Rightarrow> (unit, 'w state) async) \<Rightarrow>
   ('a, 'w state) async \<Rightarrow> ('a, 'w state) async" where
  "tryBlock hasSecretStorageKey createSecretStorageDialog interactiveAuthDialog
       bootstrapSecretStorage func st =
     await (settled (hasSecretStorageKey (world st)), st)
       (\<lambda>has st0.
          if \<not> has then
            await (createSecretStorageDialog st0)
              (\<lambda>confirmed st1.
                 if \<not> confirmed then (Rejected SecretStorageCreationCanceled, st1)
                 else func st1)
          else
            await (bootstrapSecretStorage (authUploadDeviceSigningKeys interactiveAuthDialog) st0)
              (\<lambda>_ st1. func st1))"

text \<open>The \<^verbatim>\<open>finally\<close> block (lines 146 and 147).\<close>

definition clearCache :: "'w state \<Rightarrow> 'w state" where
  "clearCache st = st\<lparr>cachingAllowed := False, secretStorageKeys := Map.empty\<rparr>"

definition accessSecretStorage ::
  "('w \<Rightarrow> error + bool) \<Rightarrow> (bool, 'w state) async \<Rightarrow> ('m \<Rightarrow> (bool, 'w) async) \<Rightarrow>
   (('m \<Rightarrow> (unit, 'w) async) \<Rightarrow> (unit, 'w state) async) \<Rightarrow>
   ('a, 'w state) async \<Rightarrow> ('a, 'w state) async" where
  "accessSecretStorage hasSecretStorageKey createSecretStorageDialog interactiveAuthDialog
       bootstrapSecretStorage func st =
     try_finally
       (tryBlock hasSecretStorageKey createSecretStorageDialog interactiveAuthDialog
          bootstrapSecretStorage func)
       clearCache
       (st\<lparr>cachingAllowed := True\<rparr>)"

subsection \<open>The module's variables between two key requests\<close>

text \<open>
  Inside one call of \<^verbatim>\<open>accessSecretStorage\<close> the module's variables are changed by
  calls of \<^verbatim>\<open>getSecretStorageKey\<close> only (each with its own request, and with whatever
  the collaborators are at that time), while the world may change in any way. What
  happens between two moments of a scope is a list of such events; \<open>scopeAfter\<close> is the
  state they lead to.
\<close>

datatype 'w scopeEvent =
  KeyRequested "'w accessDialog" "string \<Rightarrow> string \<Rightarrow> nat \<Rightarrow> key promise"
    "string option \<Rightarrow> error + key" "key \<Rightarrow> string \<Rightarrow> bool promise" keyRequest
| WorldChanged 'w

fun scopeStep :: "'w scopeEvent \<Rightarrow> 'w state \<Rightarrow> 'w state" where
  "scopeStep (KeyRequested accessDialog deriveKey decodeRecoveryKey check request) st =
     snd (getSecretStorageKey accessDialog deriveKey decodeRecoveryKey check request st)"
| "scopeStep (WorldChanged w) st = st\<lparr>world := w\<rparr>"

definition scopeAfter :: "'w scopeEvent list \<Rightarrow> 'w state \<Rightarrow> 'w state" where
  "scopeAfter events st = fold scopeStep events st"

subsection \<open>Sample collaborators\<close>

text \<open>
  Concrete collaborators, for running the model on concrete inputs. Their world is the
  number of dialogs opened so far.
\<close>

definition sampleDeriveKey :: "string \<Rightarrow> string \<Rightarrow> nat \<Rightarrow> key promise" where
  "sampleDeriveKey pw s n = Resolved [of_nat (length pw), of_nat (length s), of_nat n]"

definition sampleDecodeRecoveryKey :: "string option \<Rightarrow> error + key" where
  "sampleDecodeRecoveryKey code =
     (case code of
        None \<Rightarrow> Inl TypeError
      | Some c \<Rightarrow> if length c < 4 then Inl (Error ''Incorrect length'') else Inr [9, of_nat (length c)])"

definition sampleCheck :: "key \<Rightarrow> string \<Rightarrow> bool promise" where
  "sampleCheck k pub = Resolved (length k = length pub)"

definition sampleInfo :: keyInfo where
  "sampleInfo = \<lparr>info_passphrase = Some \<lparr>salt = ''salt'', iterations = 10\<rparr>, pubkey = ''pub''\<rparr>"

definition samplePassphrase :: keyInput where
  "samplePassphrase = \<lparr>passphrase = Some ''pw'', recoveryKey = None\<rparr>"

definition emptyPassphrase :: keyInput where
  "emptyPassphrase = \<lparr>passphrase = Some [], recoveryKey = None\<rparr>"

definition sampleRecoveryKey :: keyInput where
  "sampleRecoveryKey = \<lparr>passphrase = None, recoveryKey = Some ''EsTc LW2K''\<rparr>"

text \<open>A dialog that hands back the passphrase the user typed once its check accepts it.\<close>

definition passphraseDialog :: "nat accessDialog" where
  "passphraseDialog info check w =
     (case check samplePassphrase of
        Resolved True \<Rightarrow> (Resolved (Some samplePassphrase), Suc w)
      | _ \<Rightarrow> (Resolved None, Suc w))"

text \<open>A dialog that hands back a recovery key without checking it.\<close>

definition uncheckedDialog :: "nat accessDialog" where
  "uncheckedDialog info check w = (Resolved (Some sampleRecoveryKey), Suc w)"

text \<open>A dialog the user closes.\<close>

definition closedDialog :: "nat accessDialog" where
  "closedDialog info check w = (Resolved None, Suc w)"

definition declinedAuthDialog :: "unit \<Rightarrow> (bool, nat) async" where
  "declinedAuthDialog makeRequest w = (Resolved False, Suc w)"

definition declinedCreateDialog :: "(bool, nat state) async" where
  "declinedCreateDialog st = (Resolved False, st\<lparr>world := Suc (world st)\<rparr>)"

text \<open>A bootstrap that needs to upload the cross-signing keys, and fails as the callback does.\<close>

definition uploadingBootstrap :: "(unit \<Rightarrow> (unit, nat) async) \<Rightarrow> (unit, nat state) async" where
  "uploadingBootstrap authUpload st = in_world (authUpload ()) st"

definition readyBootstrap :: "(unit \<Rightarrow> (unit, nat) async) \<Rightarrow> (unit, nat state) async" where
  "readyBootstrap authUpload st = (Resolved (), st)"

definition hasKey :: "nat \<Rightarrow> error + bool" where
  "hasKey w = Inr True"

definition hasNoKey :: "nat \<Rightarrow> error + bool" where
  "hasNoKey w = Inr False"

definition sampleRequest :: keyRequest where
  "sampleRequest = \<lparr>keys = [(''k1'', sampleInfo)]\<rparr>"

definition twoKeyRequest :: keyRequest where
  "twoKeyRequest = \<lparr>keys = [(''k1'', sampleInfo), (''k2'', sampleInfo)]\<rparr>"

definition initialState :: "nat state" where
  "initialState = \<lparr>secretStorageKeys = Map.empty, cachingAllowed = False, world = 0\<rparr>"

text \<open>States: inside a scope with nothing cached, inside a scope after the first request,
  and outside a scope with an entry left in the dictionary.\<close>

definition scopeState :: "nat state" where
  "scopeState = \<lparr>secretStorageKeys = Map.empty, cachingAllowed = True, world = 0\<rparr>"

definition cachedState :: "nat state" where
  "cachedState = \<lparr>secretStorageKeys = [''k1'' \<mapsto> [2, 4, 10]], cachingAllowed = True, world = Suc 0\<rparr>"

definition staleState :: "nat state" where
  "staleState = \<lparr>secretStorageKeys = [''k1'' \<mapsto> [7]], cachingAllowed = False, world = 0\<rparr>"

text \<open>Later in the scope: a second key is requested and the user closes the dialog, then
  the world moves on.\<close>

definition sampleEvents :: "nat scopeEvent list" where
  "sampleEvents =
     [KeyRequested closedDialog sampleDeriveKey sampleDecodeRecoveryKey sampleCheck
        \<lparr>keys = [(''k2'', sampleInfo)]\<rparr>,
      WorldChanged 5]"

definition laterState :: "nat state" where
  "laterState = \<lparr>secretStorageKeys = [''k1'' \<mapsto> [2, 4, 10]], cachingAllowed = True, world = 5\<rparr>"

definition confirmedCreateDialog :: "(bool, nat state) async" where
  "confirmedCreateDialog st = (Resolved True, st\<lparr>world := Suc (world st)\<rparr>)"

definition hangingFunc :: "(unit, nat state) async" where
  "hangingFunc st = (Pending, st)"

section \<open>Properties\<close>

subsection \<open>Basic facts\<close>

lemma await_Resolved [simp]: "await (Resolved v, s) k = k v s"
  by (simp add: await_def)

lemma await_Rejected [simp]: "await (Rejected e, s) k = (Rejected e, s)"
  by (simp add: await_def)

lemma await_Pending [simp]: "await (Pending, s) k = (Pending, s)"
  by (simp add: await_def)

lemma settled_simps [simp]:
  "settled (Inl e) = Rejected e" "settled (Inr v) = Resolved v"
  by (simp_all add: settled_def)

lemma try_finally_ended:
  assumes "try_finally body fin s = (r, s')" and "r \<noteq> Pending"
  shows "\<exists>s0. body s = (r, s0) \<and> s' = fin s0"
proof (cases "body s")
  case (Pair r0 s0)
  with assms show ?thesis
    by (cases r0) (auto simp: try_finally_def)
qed

lemma try_finally_settles:
  assumes "body s = (r, s0)" and "r \<noteq> Pending"
  shows "try_finally body fin s = (r, fin s0)"
  using assms by (cases r) (simp_all add: try_finally_def)

lemma accessSecretStorage_ended:
  assumes "accessSecretStorage has create auth boot func st = (r, st')" and "r \<noteq> Pending"
  shows "\<exists>s0. st' = clearCache s0"
  using try_finally_ended [OF assms [unfolded accessSecretStorage_def]] by blast

lemma clearCache_simps [simp]:
  "cachingAllowed (clearCache s) = False"
  "secretStorageKeys (clearCache s) = Map.empty"
  "world (clearCache s) = world s"
  by (simp_all add: clearCache_def)

lemma cacheLookup_disabled: "\<not> cachingAllowed st \<Longrightarrow> cacheLookup st name = None"
  by (simp add: cacheLookup_def)

lemma getSecretStorageKey_multiple:
  "length (keys request) > 1 \<Longrightarrow>
   getSecretStorageKey dlg dk drk chk request st = (Rejected UnsupportedMultiKeyRequest, st)"
  by (simp add: getSecretStorageKey_def)

lemma getSecretStorageKey_hit:
  "keys request = [(name, info)] \<Longrightarrow> cacheLookup st name = Some k \<Longrightarrow>
   getSecretStorageKey dlg dk drk chk request st = (Resolved (name, k), st)"
  by (simp add: getSecretStorageKey_def)

lemma getSecretStorageKey_miss:
  "keys request = [(name, info)] \<Longrightarrow> cacheLookup st name = None \<Longrightarrow>
   getSecretStorageKey dlg dk drk chk request st =
     (case dlg info (checkPrivateKey dk drk chk info) (world st) of
        (Resolved None, w') \<Rightarrow> (Rejected SecretStorageAccessCanceled, st\<lparr>world := w'\<rparr>)
      | (Resolved (Some i), w') \<Rightarrow>
          (case inputToKey dk drk info i of
             Resolved k \<Rightarrow> (Resolved (name, k), cacheStore name k (st\<lparr>world := w'\<rparr>))
           | Rejected e \<Rightarrow> (Rejected e, st\<lparr>world := w'\<rparr>)
           | Pending \<Rightarrow> (Pending, st\<lparr>world := w'\<rparr>))
      | (Rejected e, w') \<Rightarrow> (Rejected e, st\<lparr>world := w'\<rparr>)
      | (Pending, w') \<Rightarrow> (Pending, st\<lparr>world := w'\<rparr>))"
  by (simp add: getSecretStorageKey_def in_world_def await_def
      split: promise.splits option.splits prod.splits)

lemma getSecretStorageKey_keeps:
  assumes "getSecretStorageKey dlg dk drk chk request st = (r, st')"
  shows "cachingAllowed st' = cachingAllowed st"
    and "cacheLookup st n = Some k \<Longrightarrow> cacheLookup st' n = Some k"
  using assms
  by (auto simp: getSecretStorageKey_def in_world_def await_def cacheLookup_def cacheStore_def
      Let_def split: if_splits list.splits promise.splits option.splits prod.splits)

lemma scopeStep_keeps:
  "cachingAllowed (scopeStep e st) = cachingAllowed st"
  "cacheLookup st n = Some k \<Longrightarrow> cacheLookup (scopeStep e st) n = Some k"
proof -
  show "cachingAllowed (scopeStep e st) = cachingAllowed st"
  proof (cases e)
    case (KeyRequested dlg dk drk chk request)
    then show ?thesis
      using getSecretStorageKey_keeps(1) [of dlg dk drk chk request st]
      by (cases "getSecretStorageKey dlg dk drk chk request st") simp
  next
    case (WorldChanged w)
    then show ?thesis by simp
  qed
  show "cacheLookup (scopeStep e st) n = Some k" if "cacheLookup st n = Some k"
  proof (cases e)
    case (KeyRequested dlg dk drk chk request)
    then show ?thesis
      using getSecretStorageKey_keeps(2) [of dlg dk drk chk request st _ _ n k] that
      by (cases "getSecretStorageKey dlg dk drk chk request st") simp
  next
    case (WorldChanged w)
    with that show ?thesis by (auto simp: cacheLookup_def split: if_splits)
  qed
qed

lemma scopeAfter_keeps:
  "cacheLookup st n = Some k \<Longrightarrow> cacheLookup (scopeAfter events st) n = Some k"
  unfolding scopeAfter_def
  by (induction events arbitrary: st) (simp_all add: scopeStep_keeps)

lemma tryBlock_then:
  "tryBlock has create auth boot func st =
   await (tryBlock has create auth boot (\<lambda>s. (Resolved (), s)) st) (\<lambda>_. func)"
  by (auto simp: tryBlock_def await_def split: promise.splits prod.splits sum.splits)

lemma accessSecretStorage_no_key:
  assumes "has (world st) = Inr False"
  shows "accessSecretStorage has create auth boot func st =
         try_finally
           (\<lambda>s. await (create s)
              (\<lambda>confirmed s1.
                 if \<not> confirmed then (Rejected SecretStorageCreationCanceled, s1)
                 else func s1))
           clearCache (st\<lparr>cachingAllowed := True\<rparr>)"
  using assms by (simp add: accessSecretStorage_def tryBlock_def try_finally_def)

lemma accessSecretStorage_has_key:
  assumes "has (world st) = Inr True"
  shows "accessSecretStorage has create auth boot func st =
         try_finally
           (\<lambda>s. await (boot (authUploadDeviceSigningKeys auth) s) (\<lambda>_ s1. func s1))
           clearCache (st\<lparr>cachingAllowed := True\<rparr>)"
  using assms by (simp add: accessSecretStorage_def tryBlock_def try_finally_def)

lemma getSecretStorageKey_resolved_cached:
  assumes "cachingAllowed st"
    and "keys request = [(name, info)]"
    and "getSecretStorageKey dlg dk drk chk request st = (Resolved (n, k), st1)"
  shows "n = name \<and> cacheLookup st1 name = Some k"
proof (cases "cacheLookup st name")
  case None
  with assms show ?thesis
    by (auto simp: getSecretStorageKey_miss cacheStore_def cacheLookup_def
        split: prod.splits promise.splits option.splits)
next
  case (Some k0)
  with assms show ?thesis
    by (simp add: getSecretStorageKey_hit)
qed

lemma checkPrivateKey_True:
  "checkPrivateKey dk drk chk info input = Resolved b \<longleftrightarrow>
   (\<exists>k. inputToKey dk drk info input = Resolved k \<and> chk k (pubkey info) = Resolved b)"
  by (cases "inputToKey dk drk info input") (simp_all add: checkPrivateKey_def)

subsection \<open>The sample collaborators at work\<close>

lemma sample_inputToKey [simp]:
  "inputToKey sampleDeriveKey sampleDecodeRecoveryKey sampleInfo samplePassphrase =
     Resolved [2, 4, 10]"
  by (simp add: inputToKey_def truthy_def samplePassphrase_def sampleInfo_def
      sampleDeriveKey_def)

lemma sample_checkPrivateKey [simp]:
  "checkPrivateKey sampleDeriveKey sampleDecodeRecoveryKey sampleCheck sampleInfo
     samplePassphrase = Resolved True"
proof -
  have "pubkey sampleInfo = ''pub''"
    by (simp add: sampleInfo_def)
  then show ?thesis
    by (simp add: checkPrivateKey_def sampleCheck_def)
qed

lemma sample_passphraseDialog [simp]:
  "passphraseDialog sampleInfo
     (checkPrivateKey sampleDeriveKey sampleDecodeRecoveryKey sampleCheck sampleInfo) w =
     (Resolved (Some samplePassphrase), Suc w)"
  by (simp add: passphraseDialog_def)

lemma sample_request_first:
  "cacheLookup st ''k1'' = None \<Longrightarrow>
   getSecretStorageKey passphraseDialog sampleDeriveKey sampleDecodeRecoveryKey sampleCheck
     sampleRequest st =
     (Resolved (''k1'', [2, 4, 10]), cacheStore ''k1'' [2, 4, 10] (st\<lparr>world := Suc (world st)\<rparr>))"
  by (simp add: getSecretStorageKey_miss [where name = "''k1''" and info = sampleInfo]
      sampleRequest_def)

lemma sample_run:
  "accessSecretStorage hasKey declinedCreateDialog declinedAuthDialog readyBootstrap
     (getSecretStorageKey passphraseDialog sampleDeriveKey sampleDecodeRecoveryKey sampleCheck
        sampleRequest) initialState =
   (Resolved (''k1'', [2, 4, 10]),
    \<lparr>secretStorageKeys = Map.empty, cachingAllowed = False, world = Suc 0\<rparr>)"
proof -
  let ?s = "initialState\<lparr>cachingAllowed := True\<rparr>"
  have miss: "cacheLookup ?s ''k1'' = None"
    by (simp add: cacheLookup_def initialState_def)
  have "accessSecretStorage hasKey declinedCreateDialog declinedAuthDialog readyBootstrap
     (getSecretStorageKey passphraseDialog sampleDeriveKey sampleDecodeRecoveryKey sampleCheck
        sampleRequest) initialState =
     (Resolved (''k1'', [2, 4, 10]),
      clearCache (cacheStore ''k1'' [2, 4, 10] (?s\<lparr>world := Suc (world ?s)\<rparr>)))"
    by (simp add: accessSecretStorage_has_key hasKey_def readyBootstrap_def
        sample_request_first [OF miss] try_finally_def)
  then show ?thesis
    by (simp add: cacheStore_def clearCache_def initialState_def)
qed

lemma sample_first_request:
  "getSecretStorageKey passphraseDialog sampleDeriveKey sampleDecodeRecoveryKey sampleCheck
     sampleRequest scopeState = (Resolved (''k1'', [2, 4, 10]), cachedState)"
proof -
  have "cacheLookup scopeState ''k1'' = None"
    by (simp add: cacheLookup_def scopeState_def)
  then show ?thesis
    by (simp add: sample_request_first) (simp add: cacheStore_def scopeState_def cachedState_def)
qed

lemma sample_events: "scopeAfter sampleEvents cachedState = laterState"
proof -
  have "cacheLookup cachedState ''k2'' = None"
    by (simp add: cacheLookup_def cachedState_def)
  then have "getSecretStorageKey closedDialog sampleDeriveKey sampleDecodeRecoveryKey sampleCheck
      \<lparr>keys = [(''k2'', sampleInfo)]\<rparr> cachedState =
      (Rejected SecretStorageAccessCanceled, cachedState\<lparr>world := Suc (world cachedState)\<rparr>)"
    by (simp add: getSecretStorageKey_miss [where name = "''k2''" and info = sampleInfo]
        closedDialog_def)
  then show ?thesis
    by (simp add: scopeAfter_def sampleEvents_def cachedState_def laterState_def)
qed

lemma sample_bootstrap_phase:
  "tryBlock hasKey declinedCreateDialog declinedAuthDialog readyBootstrap
     (\<lambda>s. (Resolved (), s)) st = (Resolved (), st)"
  by (simp add: tryBlock_def hasKey_def readyBootstrap_def)

subsection \<open>The cache does not outlive the operation\<close>





text \<open>
  The call that never ends is the one case left out: while the caller's operation is
  suspended, the \<^verbatim>\<open>finally\<close> block has not run and caching is still allowed.
\<close>

lemma accessSecretStorage_suspended:
  "accessSecretStorage hasKey declinedCreateDialog declinedAuthDialog readyBootstrap
     hangingFunc initialState = (Pending, initialState\<lparr>cachingAllowed := True\<rparr>)"
  by (simp add: accessSecretStorage_has_key hasKey_def readyBootstrap_def hangingFunc_def
      try_finally_def initialState_def)

subsection \<open>Requests for no key and for several keys\<close>

text \<open>
  C2. A request with more than one entry fails with the error "Multiple storage key
  requests not implemented", whatever the access dialog is: the dialog is not opened (the
  result does not depend on it and the world is as before) and the module's variables are
  unchanged.
\<close>

theorem multiple_keys_not_implemented:
  assumes "length (keys request) > 1"
  shows "getSecretStorageKey accessDialog deriveKey decodeRecoveryKey
           checkSecretStoragePrivateKey request st =
         (Rejected UnsupportedMultiKeyRequest, st)"
  using assms by (rule getSecretStorageKey_multiple)


theorem multiple_keys_not_implemented_witness:
  "length (keys twoKeyRequest) > 1 \<and>
   getSecretStorageKey passphraseDialog sampleDeriveKey sampleDecodeRecoveryKey sampleCheck
     twoKeyRequest initialState = (Rejected UnsupportedMultiKeyRequest, initialState) \<and>
   world initialState = 0"
proof -
  have two: "length (keys twoKeyRequest) > 1"
    by (simp add: twoKeyRequest_def)
  show ?thesis
    using two multiple_keys_not_implemented [OF two, of passphraseDialog sampleDeriveKey
        sampleDecodeRecoveryKey sampleCheck initialState]
    by (simp add: initialState_def)
qed


text \<open>
  C10. A request with no entry passes the test for more than one entry and then throws a
  \<^verbatim>\<open>TypeError\<close>, on destructuring \<^verbatim>\<open>keyInfoEntries[0]\<close>, which is \<^verbatim>\<open>undefined\<close>:
  no key is returned, the error is none of the module's four, and neither the cache nor
  the dialog was reached (the state is unchanged).
\<close>

theorem empty_request_type_error:
  "getSecretStorageKey accessDialog deriveKey decodeRecoveryKey checkSecretStoragePrivateKey
     \<lparr>keys = []\<rparr> st = (Rejected TypeError, st) \<and>
   TypeError \<notin> {UnsupportedMultiKeyRequest, SecretStorageAccessCanceled,
     SecretStorageCreationCanceled, CrossSigningUploadAuthCanceled}"
  by (simp add: getSecretStorageKey_def)

subsection \<open>The access dialog\<close>





text \<open>
  C7, as stated. "If the passphrase field is present the candidate key is
  \<^verbatim>\<open>deriveKey(passphrase, salt, iterations)\<close>" fails for the empty passphrase: the test
  \<^verbatim>\<open>if (passphrase)\<close> is on the truth value of the field, the empty string is falsy, and
  the input goes to \<^verbatim>\<open>decodeRecoveryKey(recoveryKey)\<close>, here with \<^verbatim>\<open>recoveryKey\<close>
  missing.
\<close>

theorem inputToKey_passphrase_present_counterexample:
  "passphrase emptyPassphrase = Some [] \<and>
   info_passphrase sampleInfo = Some \<lparr>salt = ''salt'', iterations = 10\<rparr> \<and>
   sampleDeriveKey [] ''salt'' 10 = Resolved [0, 4, 10] \<and>
   inputToKey sampleDeriveKey sampleDecodeRecoveryKey sampleInfo emptyPassphrase =
     Rejected TypeError \<and>
   inputToKey sampleDeriveKey sampleDecodeRecoveryKey sampleInfo emptyPassphrase \<noteq>
     sampleDeriveKey [] ''salt'' 10"
  by (simp add: inputToKey_def truthy_def emptyPassphrase_def sampleInfo_def
      sampleDeriveKey_def sampleDecodeRecoveryKey_def)

text \<open>
  C7, amended. One mode is applied to an input, chosen by the truth value of its
  passphrase field: when the field is present and not empty, the candidate key is
  \<^verbatim>\<open>deriveKey(passphrase, info.passphrase.salt, info.passphrase.iterations)\<close>; when it is
  missing or empty, the candidate key is \<^verbatim>\<open>decodeRecoveryKey(recoveryKey)\<close>.
\<close>

theorem inputToKey_mode:
  "(passphrase input = Some pw \<and> pw \<noteq> [] \<and> info_passphrase info = Some p \<longrightarrow>
      inputToKey deriveKey decodeRecoveryKey info input = deriveKey pw (salt p) (iterations p)) \<and>
   (passphrase input = None \<or> passphrase input = Some [] \<longrightarrow>
      inputToKey deriveKey decodeRecoveryKey info input =
        settled (decodeRecoveryKey (recoveryKey input)))"
  by (auto simp: inputToKey_def truthy_def)

theorem inputToKey_mode_witness:
  "passphrase samplePassphrase = Some ''pw'' \<and> ''pw'' \<noteq> [] \<and>
   info_passphrase sampleInfo = Some \<lparr>salt = ''salt'', iterations = 10\<rparr> \<and>
   inputToKey sampleDeriveKey sampleDecodeRecoveryKey sampleInfo samplePassphrase =
     sampleDeriveKey ''pw'' ''salt'' 10 \<and>
   passphrase sampleRecoveryKey = None \<and>
   inputToKey sampleDeriveKey sampleDecodeRecoveryKey sampleInfo sampleRecoveryKey =
     settled (sampleDecodeRecoveryKey (Some ''EsTc LW2K'')) \<and>
   passphrase emptyPassphrase = Some [] \<and>
   inputToKey sampleDeriveKey sampleDecodeRecoveryKey sampleInfo emptyPassphrase =
     settled (sampleDecodeRecoveryKey None)"
  using inputToKey_mode [of samplePassphrase "''pw''" sampleInfo
      "\<lparr>salt = ''salt'', iterations = 10\<rparr>" sampleDeriveKey sampleDecodeRecoveryKey]
    inputToKey_mode [of sampleRecoveryKey "''pw''" sampleInfo
      "\<lparr>salt = ''salt'', iterations = 10\<rparr>" sampleDeriveKey sampleDecodeRecoveryKey]
    inputToKey_mode [of emptyPassphrase "''pw''" sampleInfo
      "\<lparr>salt = ''salt'', iterations = 10\<rparr>" sampleDeriveKey sampleDecodeRecoveryKey]
  by (simp add: samplePassphrase_def sampleRecoveryKey_def emptyPassphrase_def sampleInfo_def)

text \<open>A passphrase for a key whose description has no passphrase parameters is a
  \<^verbatim>\<open>TypeError\<close>, thrown on reading \<^verbatim>\<open>info.passphrase.salt\<close>.\<close>

lemma inputToKey_no_passphrase_info:
  "passphrase input = Some pw \<Longrightarrow> pw \<noteq> [] \<Longrightarrow> info_passphrase info = None \<Longrightarrow>
   inputToKey deriveKey decodeRecoveryKey info input = Rejected TypeError"
  by (simp add: inputToKey_def truthy_def)



text \<open>
  The hypothesis on the dialog is needed: a dialog that finishes with an input it never
  checked gets the key of that input returned and cached.
\<close>

lemma unchecked_key_is_returned:
  "sampleCheck [9, 9] (pubkey sampleInfo) = Resolved False \<and>
   getSecretStorageKey uncheckedDialog sampleDeriveKey sampleDecodeRecoveryKey sampleCheck
     sampleRequest scopeState =
   (Resolved (''k1'', [9, 9]),
    \<lparr>secretStorageKeys = [''k1'' \<mapsto> [9, 9]], cachingAllowed = True, world = Suc 0\<rparr>)"
proof -
  have miss: "cacheLookup scopeState ''k1'' = None"
    by (simp add: cacheLookup_def scopeState_def)
  have key: "inputToKey sampleDeriveKey sampleDecodeRecoveryKey sampleInfo sampleRecoveryKey =
      Resolved [9, 9]"
    by (simp add: inputToKey_def truthy_def sampleRecoveryKey_def sampleDecodeRecoveryKey_def)
  have "getSecretStorageKey uncheckedDialog sampleDeriveKey sampleDecodeRecoveryKey sampleCheck
      sampleRequest scopeState =
      (Resolved (''k1'', [9, 9]), cacheStore ''k1'' [9, 9] (scopeState\<lparr>world := Suc 0\<rparr>))"
    using miss key
    by (simp add: getSecretStorageKey_miss [where name = "''k1''" and info = sampleInfo]
        sampleRequest_def uncheckedDialog_def scopeState_def)
  then show ?thesis
    by (simp add: cacheStore_def scopeState_def sampleCheck_def sampleInfo_def)
qed

text \<open>
  C9. While \<^verbatim>\<open>cachingAllowed\<close> is false, the cache test finds nothing for a name, also
  when the dictionary has an entry for it, and the store after a successful resolution does
  nothing: the request opens the dialog, returns the key derived from the input, throws
  nothing, and leaves the module's variables as they were.
\<close>

theorem cache_gate_observed:
  assumes "\<not> cachingAllowed st"
  shows "cacheLookup st name = None \<and>
         cacheStore name k st = st \<and>
         (keys request = [(name, info)] \<and>
          accessDialog info
            (checkPrivateKey deriveKey decodeRecoveryKey checkSecretStoragePrivateKey info)
            (world st) = (Resolved (Some input), w') \<and>
          inputToKey deriveKey decodeRecoveryKey info input = Resolved k \<longrightarrow>
          getSecretStorageKey accessDialog deriveKey decodeRecoveryKey
            checkSecretStoragePrivateKey request st =
            (Resolved (name, k), st\<lparr>world := w'\<rparr>))"
proof -
  have miss: "cacheLookup st name = None"
    using assms by (rule cacheLookup_disabled)
  have store: "cacheStore name k (st\<lparr>world := w'\<rparr>) = st\<lparr>world := w'\<rparr>" for w'
    using assms by (simp add: cacheStore_def)
  have "getSecretStorageKey accessDialog deriveKey decodeRecoveryKey
      checkSecretStoragePrivateKey request st = (Resolved (name, k), st\<lparr>world := w'\<rparr>)"
    if "keys request = [(name, info)]"
      and "accessDialog info
        (checkPrivateKey deriveKey decodeRecoveryKey checkSecretStoragePrivateKey info)
        (world st) = (Resolved (Some input), w')"
      and "inputToKey deriveKey decodeRecoveryKey info input = Resolved k"
    using that miss store by (simp add: getSecretStorageKey_miss)
  moreover have "cacheStore name k st = st"
    using assms by (simp add: cacheStore_def)
  ultimately show ?thesis using miss by blast
qed

theorem cache_gate_observed_witness:
  "\<not> cachingAllowed staleState \<and>
   secretStorageKeys staleState ''k1'' = Some [7] \<and>
   cacheLookup staleState ''k1'' = None \<and>
   cacheStore ''k1'' [2, 4, 10] staleState = staleState \<and>
   keys sampleRequest = [(''k1'', sampleInfo)] \<and>
   passphraseDialog sampleInfo
     (checkPrivateKey sampleDeriveKey sampleDecodeRecoveryKey sampleCheck sampleInfo)
     (world staleState) = (Resolved (Some samplePassphrase), Suc 0) \<and>
   inputToKey sampleDeriveKey sampleDecodeRecoveryKey sampleInfo samplePassphrase =
     Resolved [2, 4, 10] \<and>
   getSecretStorageKey passphraseDialog sampleDeriveKey sampleDecodeRecoveryKey sampleCheck
     sampleRequest staleState = (Resolved (''k1'', [2, 4, 10]), staleState\<lparr>world := Suc 0\<rparr>) \<and>
   secretStorageKeys (staleState\<lparr>world := Suc 0\<rparr>) ''k1'' = Some [7]"
proof -
  have off: "\<not> cachingAllowed staleState"
    by (simp add: staleState_def)
  have entry: "secretStorageKeys staleState ''k1'' = Some [7]"
    by (simp add: staleState_def)
  have single: "keys sampleRequest = [(''k1'', sampleInfo)]"
    by (simp add: sampleRequest_def)
  have dialog: "passphraseDialog sampleInfo
      (checkPrivateKey sampleDeriveKey sampleDecodeRecoveryKey sampleCheck sampleInfo)
      (world staleState) = (Resolved (Some samplePassphrase), Suc 0)"
    by (simp add: staleState_def)
  from cache_gate_observed [where st = staleState and name = "''k1''" and k = "[2, 4, 10]"
      and request = sampleRequest and info = sampleInfo and accessDialog = passphraseDialog
      and deriveKey = sampleDeriveKey and decodeRecoveryKey = sampleDecodeRecoveryKey
      and checkSecretStoragePrivateKey = sampleCheck and input = samplePassphrase
      and w' = "Suc 0", OF off]
  show ?thesis
    using off entry single dialog sample_inputToKey by simp
qed

subsection \<open>The two paths of the bootstrap\<close>

text \<open>
  C5. When \<^verbatim>\<open>hasSecretStorageKey()\<close> is false, \<^verbatim>\<open>bootstrapSecretStorage\<close> is not
  called: the call is the same whatever \<^verbatim>\<open>bootstrapSecretStorage\<close> and the interactive
  authentication dialog are. Only the creation dialog runs. When it finishes without
  confirmation the call fails with "Secret storage creation canceled", whatever \<^verbatim>\<open>func\<close>
  is, which is not run; when it finishes confirmed, the call is \<^verbatim>\<open>func\<close> followed by
  the \<^verbatim>\<open>finally\<close> block.
\<close>

theorem no_key_creation_path:
  assumes "hasSecretStorageKey (world st) = Inr False"
  shows "accessSecretStorage hasSecretStorageKey createSecretStorageDialog
           interactiveAuthDialog bootstrapSecretStorage func st =
         accessSecretStorage hasSecretStorageKey createSecretStorageDialog
           interactiveAuthDialog' bootstrapSecretStorage' func st \<and>
         (createSecretStorageDialog (st\<lparr>cachingAllowed := True\<rparr>) = (Resolved False, st1) \<longrightarrow>
          accessSecretStorage hasSecretStorageKey createSecretStorageDialog
            interactiveAuthDialog bootstrapSecretStorage func st =
            (Rejected SecretStorageCreationCanceled,
             st1\<lparr>cachingAllowed := False, secretStorageKeys := Map.empty\<rparr>)) \<and>
         (createSecretStorageDialog (st\<lparr>cachingAllowed := True\<rparr>) = (Resolved True, st1) \<longrightarrow>
          accessSecretStorage hasSecretStorageKey createSecretStorageDialog
            interactiveAuthDialog bootstrapSecretStorage func st =
            try_finally func clearCache st1)"
  using assms
  by (simp add: accessSecretStorage_no_key try_finally_def clearCache_def)

theorem no_key_creation_path_witness:
  "hasNoKey (world initialState) = Inr False \<and>
   accessSecretStorage hasNoKey declinedCreateDialog declinedAuthDialog uploadingBootstrap
     hangingFunc initialState =
   accessSecretStorage hasNoKey declinedCreateDialog declinedAuthDialog readyBootstrap
     hangingFunc initialState \<and>
   declinedCreateDialog (initialState\<lparr>cachingAllowed := True\<rparr>) =
     (Resolved False, scopeState\<lparr>world := Suc 0\<rparr>) \<and>
   accessSecretStorage hasNoKey declinedCreateDialog declinedAuthDialog uploadingBootstrap
     hangingFunc initialState =
     (Rejected SecretStorageCreationCanceled, initialState\<lparr>world := Suc 0\<rparr>) \<and>
   confirmedCreateDialog (initialState\<lparr>cachingAllowed := True\<rparr>) =
     (Resolved True, scopeState\<lparr>world := Suc 0\<rparr>) \<and>
   accessSecretStorage hasNoKey confirmedCreateDialog declinedAuthDialog uploadingBootstrap
     (getSecretStorageKey passphraseDialog sampleDeriveKey sampleDecodeRecoveryKey sampleCheck
        sampleRequest) initialState =
     (Resolved (''k1'', [2, 4, 10]), initialState\<lparr>world := Suc (Suc 0)\<rparr>)"
proof -
  let ?get = "getSecretStorageKey passphraseDialog sampleDeriveKey sampleDecodeRecoveryKey
    sampleCheck sampleRequest"
  have no_key: "hasNoKey (world initialState) = Inr False"
    by (simp add: hasNoKey_def)
  have declined: "declinedCreateDialog (initialState\<lparr>cachingAllowed := True\<rparr>) =
      (Resolved False, scopeState\<lparr>world := Suc 0\<rparr>)"
    by (simp add: declinedCreateDialog_def initialState_def scopeState_def)
  have confirmed: "confirmedCreateDialog (initialState\<lparr>cachingAllowed := True\<rparr>) =
      (Resolved True, scopeState\<lparr>world := Suc 0\<rparr>)"
    by (simp add: confirmedCreateDialog_def initialState_def scopeState_def)
  have "cacheLookup (scopeState\<lparr>world := Suc 0\<rparr>) ''k1'' = None"
    by (simp add: cacheLookup_def scopeState_def)
  then have run: "try_finally ?get clearCache (scopeState\<lparr>world := Suc 0\<rparr>) =
      (Resolved (''k1'', [2, 4, 10]), initialState\<lparr>world := Suc (Suc 0)\<rparr>)"
    by (simp add: sample_request_first try_finally_def)
      (simp add: cacheStore_def clearCache_def scopeState_def initialState_def)
  have cleared: "scopeState\<lparr>world := Suc 0, cachingAllowed := False,
      secretStorageKeys := Map.empty\<rparr> = initialState\<lparr>world := Suc 0\<rparr>"
    by (simp add: scopeState_def initialState_def)
  from no_key_creation_path [where hasSecretStorageKey = hasNoKey and st = initialState
      and createSecretStorageDialog = declinedCreateDialog
      and interactiveAuthDialog = declinedAuthDialog
      and bootstrapSecretStorage = uploadingBootstrap and func = hangingFunc
      and interactiveAuthDialog' = declinedAuthDialog
      and bootstrapSecretStorage' = readyBootstrap
      and ?st1.0 = "scopeState\<lparr>world := Suc 0\<rparr>", OF no_key]
    no_key_creation_path [where hasSecretStorageKey = hasNoKey and st = initialState
      and createSecretStorageDialog = confirmedCreateDialog
      and interactiveAuthDialog = declinedAuthDialog
      and bootstrapSecretStorage = uploadingBootstrap and func = ?get
      and interactiveAuthDialog' = declinedAuthDialog
      and bootstrapSecretStorage' = readyBootstrap
      and ?st1.0 = "scopeState\<lparr>world := Suc 0\<rparr>", OF no_key]
  show ?thesis
    using no_key declined confirmed run cleared by auto
qed

text \<open>
  C6. When \<^verbatim>\<open>hasSecretStorageKey()\<close> is true, \<^verbatim>\<open>bootstrapSecretStorage\<close> is given
  the callback \<^verbatim>\<open>authUploadDeviceSigningKeys\<close>. If the interactive authentication dialog
  finishes without confirmation, the callback throws "Cross-signing key upload auth
  canceled"; when the bootstrap called the callback and fails as the callback did, the
  whole call fails with that error, \<^verbatim>\<open>func\<close> is not run (the result is the same for
  every \<^verbatim>\<open>func\<close>), and \<^verbatim>\<open>cachingAllowed\<close> ends false with the dictionary empty.
\<close>

theorem upload_auth_canceled:
  assumes "hasSecretStorageKey (world st) = Inr True"
    and "interactiveAuthDialog makeRequest w = (Resolved False, w')"
    and "bootstrapSecretStorage (authUploadDeviceSigningKeys interactiveAuthDialog)
           (st\<lparr>cachingAllowed := True\<rparr>) =
           (fst (authUploadDeviceSigningKeys interactiveAuthDialog makeRequest w), st1)"
  shows "authUploadDeviceSigningKeys interactiveAuthDialog makeRequest w =
           (Rejected CrossSigningUploadAuthCanceled, w') \<and>
         accessSecretStorage hasSecretStorageKey createSecretStorageDialog
           interactiveAuthDialog bootstrapSecretStorage func st =
           (Rejected CrossSigningUploadAuthCanceled,
            st1\<lparr>cachingAllowed := False, secretStorageKeys := Map.empty\<rparr>)"
proof -
  have callback: "authUploadDeviceSigningKeys interactiveAuthDialog makeRequest w =
      (Rejected CrossSigningUploadAuthCanceled, w')"
    using assms(2) by (simp add: authUploadDeviceSigningKeys_def)
  with assms(3) have "bootstrapSecretStorage (authUploadDeviceSigningKeys interactiveAuthDialog)
      (st\<lparr>cachingAllowed := True\<rparr>) = (Rejected CrossSigningUploadAuthCanceled, st1)"
    by simp
  with assms(1) callback show ?thesis
    by (simp add: accessSecretStorage_has_key try_finally_def clearCache_def)
qed

theorem upload_auth_canceled_witness:
  "hasKey (world initialState) = Inr True \<and>
   declinedAuthDialog () 0 = (Resolved False, Suc 0) \<and>
   uploadingBootstrap (authUploadDeviceSigningKeys declinedAuthDialog)
     (initialState\<lparr>cachingAllowed := True\<rparr>) =
     (fst (authUploadDeviceSigningKeys declinedAuthDialog () 0),
      \<lparr>secretStorageKeys = Map.empty, cachingAllowed = True, world = Suc 0\<rparr>) \<and>
   authUploadDeviceSigningKeys declinedAuthDialog () 0 =
     (Rejected CrossSigningUploadAuthCanceled, Suc 0) \<and>
   accessSecretStorage hasKey declinedCreateDialog declinedAuthDialog uploadingBootstrap
     (getSecretStorageKey passphraseDialog sampleDeriveKey sampleDecodeRecoveryKey sampleCheck
        sampleRequest) initialState =
     (Rejected CrossSigningUploadAuthCanceled,
      \<lparr>secretStorageKeys = Map.empty, cachingAllowed = False, world = Suc 0\<rparr>)"
proof -
  have has: "hasKey (world initialState) = Inr True"
    by (simp add: hasKey_def)
  have declined: "declinedAuthDialog () 0 = (Resolved False, Suc 0)"
    by (simp add: declinedAuthDialog_def)
  have boot: "uploadingBootstrap (authUploadDeviceSigningKeys declinedAuthDialog)
      (initialState\<lparr>cachingAllowed := True\<rparr>) =
      (fst (authUploadDeviceSigningKeys declinedAuthDialog () 0),
       \<lparr>secretStorageKeys = Map.empty, cachingAllowed = True, world = Suc 0\<rparr>)"
    by (simp add: uploadingBootstrap_def in_world_def authUploadDeviceSigningKeys_def
        declinedAuthDialog_def initialState_def)
  from upload_auth_canceled [where hasSecretStorageKey = hasKey and st = initialState
      and interactiveAuthDialog = declinedAuthDialog and makeRequest = "()" and w = 0
      and bootstrapSecretStorage = uploadingBootstrap
      and createSecretStorageDialog = declinedCreateDialog
      and func = "getSecretStorageKey passphraseDialog sampleDeriveKey
        sampleDecodeRecoveryKey sampleCheck sampleRequest",
      OF has declined boot]
  show ?thesis
    using has declined boot by simp
qed

end
